theory Spec2Isabelle
  imports Main "HOL-Library.AList"
begin

section \<open>Python values\<close>

text \<open>
  The values that \<^verbatim>\<open>json.load\<close> hands to \<^verbatim>\<open>AuthManager\<close> and that the manager keeps in
  its attributes. \<open>JNull\<close> is Python's \<^verbatim>\<open>None\<close>, a \<open>JObj\<close> is a \<^verbatim>\<open>dict\<close> with string keys in
  insertion order. Numbers with a fraction or an exponent are not represented.
\<close>

datatype json =
    JNull
  | JBool bool
  | JInt int
  | JStr string
  | JArr "json list"
  | JObj "(string \<times> json) list"

text \<open>Truth value of an object, as \<^verbatim>\<open>not x\<close> and \<^verbatim>\<open>x or y\<close> test it.\<close>

fun truthy :: "json \<Rightarrow> bool" where
  "truthy JNull = False"
| "truthy (JBool b) = b"
| "truthy (JInt i) = (i \<noteq> 0)"
| "truthy (JStr s) = (s \<noteq> [])"
| "truthy (JArr xs) = (xs \<noteq> [])"
| "truthy (JObj d) = (d \<noteq> [])"

section \<open>The collaborators: HTTP, files, environment, console\<close>

record request =
  url :: string
  data :: "(string \<times> json) list"

record response =
  status_code :: nat
  body :: string

text \<open>
  The exceptions that leave the methods. \<open>RuntimeError\<close> is what \<^verbatim>\<open>ensure_access_token\<close>
  raises itself; \<open>HTTPError\<close> is what \<^verbatim>\<open>Response.raise_for_status\<close> raises, and it carries
  the response; \<open>RequestException\<close> stands for a failure of \<^verbatim>\<open>requests.post\<close> before any
  response exists.
\<close>

datatype error =
    RuntimeError string
  | KeyError string
  | TypeError
  | AttributeError
  | JSONDecodeError
  | EOFError
  | RequestException
  | HTTPError response

text \<open>
  Library functions the source calls and this development does not define:
  \<^verbatim>\<open>json.dump(_, f, indent=2)\<close>, \<^verbatim>\<open>json.load\<close> (\<open>None\<close> when the text is not JSON),
  \<^verbatim>\<open>Response.json()\<close> (\<open>None\<close> when the body does not decode), and \<^verbatim>\<open>repr\<close> of a list or
  dict. The token endpoint answers with a JSON object, so \<open>response_json\<close> yields a dict:
  a body that decodes to another kind of JSON value is outside this model.
\<close>

record library =
  json_dumps :: "json \<Rightarrow> string"
  json_loads :: "string \<Rightarrow> json option"
  response_json :: "response \<Rightarrow> (string \<times> json) list option"
  py_repr :: "json \<Rightarrow> string"

datatype path = CONFIG_PATH | SETTINGS_PATH

text \<open>
  Everything outside the manager object: the process environment, the two files under
  \<^verbatim>\<open>~/.whoop_sdk\<close>, the lines the user will type, the network, and two logs (the requests
  sent and the files written, oldest first) that make "no call" and "no write" statable.
  The file system is reliable (\<^verbatim>\<open>mkdir\<close>, \<^verbatim>\<open>open\<close> and the write do not fail), and what
  \<^verbatim>\<open>print\<close> and the prompts of \<^verbatim>\<open>input\<close> show on the console is not recorded.
\<close>

record world =
  environ :: "string \<rightharpoonup> string"
  files :: "path \<rightharpoonup> string"
  stdin :: "string list"
  network :: "request \<Rightarrow> error + response"
  requests_log :: "request list"
  fs_writes :: "path list"

record auth_manager =
  settings :: json
  client_id :: json
  client_secret :: json
  redirect_uri :: json
  scopes :: string
  state :: string
  tokens :: json

definition AUTH_URL :: string where
  "AUTH_URL = ''https://api.prod.whoop.com/oauth/oauth2/auth''"

definition TOKEN_URL :: string where
  "TOKEN_URL = ''https://api.prod.whoop.com/oauth/oauth2/token''"

section \<open>Built-in operations of Python\<close>

text \<open>\<^verbatim>\<open>x.get(k)\<close>: \<^verbatim>\<open>None\<close> for a missing key; only a dict has the method.\<close>

fun py_get :: "json \<Rightarrow> string \<Rightarrow> error + json" where
  "py_get (JObj d) k = Inr (case map_of d k of None \<Rightarrow> JNull | Some v \<Rightarrow> v)"
| "py_get _ k = Inl AttributeError"

text \<open>\<^verbatim>\<open>x[k]\<close> with a string \<open>k\<close>: a dict raises KeyError for a missing key, every other
  value raises TypeError.\<close>

fun py_getitem :: "json \<Rightarrow> string \<Rightarrow> error + json" where
  "py_getitem (JObj d) k = (case map_of d k of None \<Rightarrow> Inl (KeyError k) | Some v \<Rightarrow> Inr v)"
| "py_getitem _ k = Inl TypeError"

text \<open>\<^verbatim>\<open>d.update(new)\<close> for two dicts: a key of \<open>new\<close> overwrites in place or is appended.\<close>

definition dict_update :: "(string \<times> json) list \<Rightarrow> (string \<times> json) list \<Rightarrow> (string \<times> json) list" where
  "dict_update d new = foldl (\<lambda>acc (k, v). AList.update k v acc) d new"

definition os_getenv :: "world \<Rightarrow> string \<Rightarrow> json" where
  "os_getenv w name = (case environ w name of None \<Rightarrow> JNull | Some s \<Rightarrow> JStr s)"

text \<open>\<^verbatim>\<open>input(prompt)\<close>: the next line of standard input, EOFError when there is none.\<close>

definition py_input :: "world \<Rightarrow> (error + string) \<times> world" where
  "py_input w =
     (case stdin w of
        [] \<Rightarrow> (Inl EOFError, w)
      | l # ls \<Rightarrow> (Inr l, w\<lparr>stdin := ls\<rparr>))"

text \<open>\<^verbatim>\<open>requests.post(url, data=data)\<close>: the request is logged, the network answers.\<close>

definition requests_post :: "world \<Rightarrow> string \<Rightarrow> (string \<times> json) list \<Rightarrow> (error + response) \<times> world" where
  "requests_post w u d =
     (let rq = \<lparr>url = u, data = d\<rparr>
      in (network w rq, w\<lparr>requests_log := requests_log w @ [rq]\<rparr>))"

text \<open>\<^verbatim>\<open>resp.raise_for_status()\<close>: statuses 400 to 599 raise HTTPError with the response.\<close>

definition raise_for_status :: "response \<Rightarrow> error + unit" where
  "raise_for_status r =
     (if 400 \<le> status_code r \<and> status_code r < 600 then Inl (HTTPError r) else Inr ())"

section \<open>AuthManager\<close>

text \<open>
  The methods below are \<^verbatim>\<open>__init__\<close>, \<^verbatim>\<open>ensure_access_token\<close>, \<^verbatim>\<open>refresh_access_token\<close>,
  \<^verbatim>\<open>_build_auth_url\<close> and the four load and save helpers. Every function takes the
  library as its first argument.
\<close>

subsection \<open>The two stores\<close>

definition save_tokens :: "library \<Rightarrow> auth_manager \<Rightarrow> world \<Rightarrow> json \<Rightarrow> auth_manager \<times> world" where
  "save_tokens L m w toks =
     (m\<lparr>tokens := toks\<rparr>,
      w\<lparr>files := (files w)(CONFIG_PATH \<mapsto> json_dumps L toks),
        fs_writes := fs_writes w @ [CONFIG_PATH]\<rparr>)"

definition load_tokens :: "library \<Rightarrow> world \<Rightarrow> error + json" where
  "load_tokens L w =
     (case files w CONFIG_PATH of
        Some txt \<Rightarrow> (case json_loads L txt of None \<Rightarrow> Inl JSONDecodeError | Some v \<Rightarrow> Inr v)
      | None \<Rightarrow> Inr (JObj []))"

definition load_settings :: "library \<Rightarrow> world \<Rightarrow> error + json" where
  "load_settings L w =
     (case files w SETTINGS_PATH of
        Some txt \<Rightarrow> (case json_loads L txt of None \<Rightarrow> Inl JSONDecodeError | Some v \<Rightarrow> Inr v)
      | None \<Rightarrow> Inr (JObj []))"

definition save_settings :: "library \<Rightarrow> world \<Rightarrow> json \<Rightarrow> world" where
  "save_settings L w d =
     w\<lparr>files := (files w)(SETTINGS_PATH \<mapsto> json_dumps L d),
       fs_writes := fs_writes w @ [SETTINGS_PATH]\<rparr>"

subsection \<open>The token lifecycle\<close>

text \<open>
  A method returns its result or the exception it raised, together with the manager and
  the world as the call left them: what was changed before a raise stays changed.
\<close>

definition refresh_access_token ::
  "library \<Rightarrow> auth_manager \<Rightarrow> world \<Rightarrow> (error + json) \<times> auth_manager \<times> world" where
  "refresh_access_token L m w =
     (case py_getitem (tokens m) ''refresh_token'' of
        Inl e \<Rightarrow> (Inl e, m, w)
      | Inr rt \<Rightarrow>
          (let d = [(''grant_type'', JStr ''refresh_token''),
                    (''refresh_token'', rt),
                    (''client_id'', client_id m),
                    (''client_secret'', client_secret m)];
               (r, w1) = requests_post w TOKEN_URL d
           in case r of
                Inl e \<Rightarrow> (Inl e, m, w1)
              | Inr resp \<Rightarrow>
                  (case raise_for_status resp of
                     Inl e \<Rightarrow> (Inl e, m, w1)
                   | Inr _ \<Rightarrow>
                       (case response_json L resp of
                          None \<Rightarrow> (Inl JSONDecodeError, m, w1)
                        | Some new_tokens \<Rightarrow>
                            (case tokens m of
                               JObj old \<Rightarrow>
                                 (let m1 = m\<lparr>tokens := JObj (dict_update old new_tokens)\<rparr>;
                                      (m2, w2) = save_tokens L m1 w1 (tokens m1)
                                  in (py_getitem (tokens m2) ''access_token'', m2, w2))
                             | _ \<Rightarrow> (Inl AttributeError, m, w1))))))"

definition ensure_access_token ::
  "library \<Rightarrow> auth_manager \<Rightarrow> world \<Rightarrow> (error + json) \<times> auth_manager \<times> world" where
  "ensure_access_token L m w =
     (if \<not> truthy (tokens m)
      then (Inl (RuntimeError ''No tokens found. Run Whoop(login=True) first.''), m, w)
      else case py_get (tokens m) ''access_token'' of
             Inl e \<Rightarrow> (Inl e, m, w)
           | Inr a \<Rightarrow> if truthy a then (Inr a, m, w) else refresh_access_token L m w)"

text \<open>The request that \<^verbatim>\<open>refresh_access_token\<close> posts for the stored refresh token \<open>rt\<close>.\<close>

definition refresh_request :: "auth_manager \<Rightarrow> json \<Rightarrow> request" where
  "refresh_request m rt =
     \<lparr>url = TOKEN_URL,
      data = [(''grant_type'', JStr ''refresh_token''),
              (''refresh_token'', rt),
              (''client_id'', client_id m),
              (''client_secret'', client_secret m)]\<rparr>"

subsection \<open>Construction: resolving the client credentials\<close>

text \<open>
  \<^verbatim>\<open>str.strip()\<close>. A string is the UTF-8 encoding of the Python text, so the whitespace
  that Python removes at both ends is a single byte (U+0009 to U+000D, U+001C to U+0020),
  two bytes (U+0085, U+00A0) or three bytes (U+1680, U+2000 to U+200A, U+2028, U+2029,
  U+202F, U+205F, U+3000).
\<close>

definition is_space :: "char \<Rightarrow> bool" where
  "is_space c = (let n = (of_char c :: nat) in (9 \<le> n \<and> n \<le> 13) \<or> (28 \<le> n \<and> n \<le> 32))"

definition is_space2 :: "char \<Rightarrow> char \<Rightarrow> bool" where
  "is_space2 a b =
     (let x = (of_char a :: nat); y = (of_char b :: nat)
      in x = 194 \<and> (y = 133 \<or> y = 160))"

definition is_space3 :: "char \<Rightarrow> char \<Rightarrow> char \<Rightarrow> bool" where
  "is_space3 a b c =
     (let x = (of_char a :: nat); y = (of_char b :: nat); z = (of_char c :: nat)
      in (x = 225 \<and> y = 154 \<and> z = 128)
         \<or> (x = 226 \<and> y = 128 \<and> ((128 \<le> z \<and> z \<le> 138) \<or> z = 168 \<or> z = 169 \<or> z = 175))
         \<or> (x = 226 \<and> y = 129 \<and> z = 159)
         \<or> (x = 227 \<and> y = 128 \<and> z = 128))"

text \<open>Whitespace removed at the front; \<open>sp2\<close> and \<open>sp3\<close> recognise the two-byte and
  three-byte characters, in the order in which their bytes are met.\<close>

fun strip_front ::
  "(char \<Rightarrow> char \<Rightarrow> bool) \<Rightarrow> (char \<Rightarrow> char \<Rightarrow> char \<Rightarrow> bool) \<Rightarrow> string \<Rightarrow> string" where
  "strip_front sp2 sp3 (a # b # c # cs) =
     (if is_space a then strip_front sp2 sp3 (b # c # cs)
      else if sp2 a b then strip_front sp2 sp3 (c # cs)
      else if sp3 a b c then strip_front sp2 sp3 cs
      else a # b # c # cs)"
| "strip_front sp2 sp3 [a, b] =
     (if is_space a then strip_front sp2 sp3 [b]
      else if sp2 a b then []
      else [a, b])"
| "strip_front sp2 sp3 [a] = (if is_space a then [] else [a])"
| "strip_front sp2 sp3 [] = []"

definition py_strip :: "string \<Rightarrow> string" where
  "py_strip s =
     rev (strip_front (\<lambda>a b. is_space2 b a) (\<lambda>a b c. is_space3 c b a)
            (rev (strip_front is_space2 is_space3 s)))"

text \<open>\<^verbatim>\<open>os.getenv(var) or self.settings.get(key)\<close>: the settings are only consulted when
  the variable is unset or empty.\<close>

definition env_or_setting :: "world \<Rightarrow> json \<Rightarrow> string \<Rightarrow> string \<Rightarrow> error + json" where
  "env_or_setting w s var key =
     (let e = os_getenv w var in if truthy e then Inr e else py_get s key)"

text \<open>The body of the \<^verbatim>\<open>if not self.client_id or not self.client_secret\<close> block: three
  prompts, then the triple is saved.\<close>

definition prompt_credentials :: "library \<Rightarrow> world \<Rightarrow> (error + json \<times> json \<times> json) \<times> world" where
  "prompt_credentials L w =
     (case py_input w of
        (Inl e, w1) \<Rightarrow> (Inl e, w1)
      | (Inr a, w1) \<Rightarrow>
          (case py_input w1 of
             (Inl e, w2) \<Rightarrow> (Inl e, w2)
           | (Inr b, w2) \<Rightarrow>
               (case py_input w2 of
                  (Inl e, w3) \<Rightarrow> (Inl e, w3)
                | (Inr c, w3) \<Rightarrow>
                    (let cid = JStr (py_strip a);
                         csec = JStr (py_strip b);
                         ru = JStr (if py_strip c \<noteq> [] then py_strip c else ''https://www.google.com'');
                         w4 = save_settings L w3
                                (JObj [(''client_id'', cid), (''client_secret'', csec), (''redirect_uri'', ru)])
                     in (Inr (cid, csec, ru), w4)))))"

text \<open>\<^verbatim>\<open>AuthManager()\<close>: the new manager, or the exception that stopped \<^verbatim>\<open>__init__\<close>.\<close>

definition init :: "library \<Rightarrow> world \<Rightarrow> (error + auth_manager) \<times> world" where
  "init L w =
     (case load_settings L w of
        Inl e \<Rightarrow> (Inl e, w)
      | Inr s \<Rightarrow>
     (case env_or_setting w s ''WHOOP_CLIENT_ID'' ''client_id'' of
        Inl e \<Rightarrow> (Inl e, w)
      | Inr cid \<Rightarrow>
     (case env_or_setting w s ''WHOOP_CLIENT_SECRET'' ''client_secret'' of
        Inl e \<Rightarrow> (Inl e, w)
      | Inr csec \<Rightarrow>
     (case py_get s ''redirect_uri'' of
        Inl e \<Rightarrow> (Inl e, w)
      | Inr ru0 \<Rightarrow>
          (let ru = (if truthy ru0 then ru0 else JStr ''https://www.google.com'');
               (r, w1) = (if \<not> truthy cid \<or> \<not> truthy csec
                          then prompt_credentials L w
                          else (Inr (cid, csec, ru), w))
           in case r of
                Inl e \<Rightarrow> (Inl e, w1)
              | Inr (cid1, csec1, ru1) \<Rightarrow>
                  (case load_tokens L w1 of
                     Inl e \<Rightarrow> (Inl e, w1)
                   | Inr toks \<Rightarrow>
                       (Inr \<lparr>settings = s, client_id = cid1, client_secret = csec1,
                             redirect_uri = ru1,
                             scopes = ''offline read:profile read:recovery read:sleep read:workout'',
                             state = ''whoop_sdk_state_12345'',
                             tokens = toks\<rparr>, w1)))))))"

subsection \<open>The authorization URL\<close>

text \<open>\<^verbatim>\<open>str(n)\<close> for an integer.\<close>

fun digits :: "nat \<Rightarrow> string" where
  "digits n = (if n < 10 then [char_of (48 + n)] else digits (n div 10) @ [char_of (48 + n mod 10)])"

definition str_of_int :: "int \<Rightarrow> string" where
  "str_of_int i = (if i < 0 then ''-'' @ digits (nat (- i)) else digits (nat i))"

fun py_str :: "library \<Rightarrow> json \<Rightarrow> string" where
  "py_str L JNull = ''None''"
| "py_str L (JBool b) = (if b then ''True'' else ''False'')"
| "py_str L (JInt i) = str_of_int i"
| "py_str L (JStr s) = s"
| "py_str L (JArr xs) = py_repr L (JArr xs)"
| "py_str L (JObj d) = py_repr L (JObj d)"

text \<open>\<^verbatim>\<open>urllib.parse.quote_plus\<close> on the bytes of a string: letters, digits and \<^verbatim>\<open>_.-~\<close>
  stay, a space becomes \<^verbatim>\<open>+\<close>, every other byte becomes \<^verbatim>\<open>%XX\<close>.\<close>

definition hex_digit :: "nat \<Rightarrow> char" where
  "hex_digit n = (if n < 10 then char_of (48 + n) else char_of (55 + n))"

definition always_safe :: "char \<Rightarrow> bool" where
  "always_safe c =
     (let n = (of_char c :: nat)
      in (65 \<le> n \<and> n \<le> 90) \<or> (97 \<le> n \<and> n \<le> 122) \<or> (48 \<le> n \<and> n \<le> 57) \<or> c \<in> set ''_.-~'')"

definition quote_char :: "char \<Rightarrow> string" where
  "quote_char c =
     (if c = CHR '' '' then ''+''
      else if always_safe c then [c]
      else [CHR ''%'', hex_digit (of_char c div 16), hex_digit (of_char c mod 16)])"

definition quote_plus :: "string \<Rightarrow> string" where
  "quote_plus s = concat (map quote_char s)"

text \<open>\<^verbatim>\<open>sep.join(xs)\<close>.\<close>

fun join :: "string \<Rightarrow> string list \<Rightarrow> string" where
  "join sep [] = []"
| "join sep [x] = x"
| "join sep (x # y # ys) = x @ sep @ join sep (y # ys)"

text \<open>\<^verbatim>\<open>urllib.parse.urlencode(params)\<close> for a dict with string keys.\<close>

definition urlencode :: "library \<Rightarrow> (string \<times> json) list \<Rightarrow> string" where
  "urlencode L ps = join ''&'' (map (\<lambda>(k, v). quote_plus k @ ''='' @ quote_plus (py_str L v)) ps)"

definition build_auth_url :: "library \<Rightarrow> auth_manager \<Rightarrow> string" where
  "build_auth_url L m =
     (let params = [(''client_id'', client_id m),
                    (''response_type'', JStr ''code''),
                    (''redirect_uri'', redirect_uri m),
                    (''scope'', JStr (scopes m)),
                    (''state'', JStr (state m))]
      in AUTH_URL @ ''?'' @ urlencode L params)"

subsection \<open>Decoding a query string\<close>

text \<open>
  What reads the URL back: the query is what follows the first \<^verbatim>\<open>?\<close>, and
  \<^verbatim>\<open>urllib.parse.parse_qsl\<close> with its defaults splits it at \<^verbatim>\<open>&\<close>, splits each field at its
  first \<^verbatim>\<open>=\<close>, drops a field with no \<^verbatim>\<open>=\<close> or with an empty value, and unquotes names and
  values (\<^verbatim>\<open>+\<close> is a space, \<^verbatim>\<open>%XX\<close> is a byte, a malformed escape stays as it is).
\<close>

definition url_query :: "string \<Rightarrow> string" where
  "url_query u = drop 1 (dropWhile (\<lambda>c. c \<noteq> CHR ''?'') u)"

fun split_on :: "char \<Rightarrow> string \<Rightarrow> string list" where
  "split_on sep [] = [[]]"
| "split_on sep (c # cs) =
     (if c = sep then [] # split_on sep cs
      else (case split_on sep cs of
              [] \<Rightarrow> [[c]]
            | x # xs \<Rightarrow> (c # x) # xs))"

definition hex_val :: "char \<Rightarrow> nat option" where
  "hex_val c =
     (let n = (of_char c :: nat)
      in if 48 \<le> n \<and> n \<le> 57 then Some (n - 48)
         else if 65 \<le> n \<and> n \<le> 70 then Some (n - 55)
         else if 97 \<le> n \<and> n \<le> 102 then Some (n - 87)
         else None)"

fun unquote :: "string \<Rightarrow> string" where
  "unquote (p # a # b # cs) =
     (if p = CHR ''%'' then
        (case (hex_val a, hex_val b) of
           (Some h, Some l) \<Rightarrow> char_of (16 * h + l) # unquote cs
         | _ \<Rightarrow> p # unquote (a # b # cs))
      else p # unquote (a # b # cs))"
| "unquote cs = cs"

definition unquote_plus :: "string \<Rightarrow> string" where
  "unquote_plus s = unquote (map (\<lambda>c. if c = CHR ''+'' then CHR '' '' else c) s)"

definition parse_field :: "string \<Rightarrow> (string \<times> string) list" where
  "parse_field f =
     (let name = takeWhile (\<lambda>c. c \<noteq> CHR ''='') f;
          rest = dropWhile (\<lambda>c. c \<noteq> CHR ''='') f
      in if rest = [] \<or> drop 1 rest = [] then []
         else [(unquote_plus name, unquote_plus (drop 1 rest))])"

definition parse_qsl :: "string \<Rightarrow> (string \<times> string) list" where
  "parse_qsl q = concat (map parse_field (split_on CHR ''&'' q))"

section \<open>Example configurations\<close>

text \<open>
  Concrete values on which the theorems below are exercised. The example library knows
  three documents (a token set, a credential triple, and settings that hold a client id
  only) and two response bodies.
\<close>

definition demo_tokens :: json where
  "demo_tokens = JObj [(''access_token'', JStr ''A1''), (''refresh_token'', JStr ''R1'')]"

definition demo_credentials :: json where
  "demo_credentials =
     JObj [(''client_id'', JStr ''id1''), (''client_secret'', JStr ''sec1''),
           (''redirect_uri'', JStr ''https://example.com'')]"

definition demo_library :: library where
  "demo_library =
     \<lparr>json_dumps = (\<lambda>v. if v = demo_tokens then ''tokens-1''
                         else if v = demo_credentials then ''credentials-1''
                         else ''other''),
      json_loads = (\<lambda>t. if t = ''tokens-1'' then Some demo_tokens
                         else if t = ''credentials-1'' then Some demo_credentials
                         else if t = ''id-only'' then Some (JObj [(''client_id'', JStr ''sid'')])
                         else None),
      response_json = (\<lambda>r. if body r = ''new-access'' then Some [(''access_token'', JStr ''A2'')]
                            else if body r = ''nothing'' then Some []
                            else None),
      py_repr = (\<lambda>v. ''?'')\<rparr>"

definition demo_manager :: "json \<Rightarrow> auth_manager" where
  "demo_manager toks =
     \<lparr>settings = JObj [], client_id = JStr ''id1'', client_secret = JStr ''sec1'',
      redirect_uri = JStr ''https://www.google.com'',
      scopes = ''offline read:profile read:recovery read:sleep read:workout'',
      state = ''whoop_sdk_state_12345'',
      tokens = toks\<rparr>"

definition demo_world :: "(request \<Rightarrow> error + response) \<Rightarrow> world" where
  "demo_world net =
     \<lparr>environ = Map.empty, files = Map.empty, stdin = [], network = net,
      requests_log = [], fs_writes = []\<rparr>"

definition offline :: "request \<Rightarrow> error + response" where
  "offline rq = Inl RequestException"

definition demo_setup :: "(string \<rightharpoonup> string) \<Rightarrow> (path \<rightharpoonup> string) \<Rightarrow> string list \<Rightarrow> world" where
  "demo_setup env fs lines =
     \<lparr>environ = env, files = fs, stdin = lines, network = offline,
      requests_log = [], fs_writes = []\<rparr>"

definition demo_refresh_only :: json where
  "demo_refresh_only = JObj [(''refresh_token'', JStr ''R1'')]"


definition demo_network :: "response \<Rightarrow> request \<Rightarrow> error + response" where
  "demo_network resp rq = (if url rq = TOKEN_URL then Inr resp else Inl RequestException)"

definition demo_resolved :: auth_manager where
  "demo_resolved =
     \<lparr>settings = demo_credentials, client_id = JStr ''eid'', client_secret = JStr ''sec1'',
      redirect_uri = JStr ''https://example.com'',
      scopes = ''offline read:profile read:recovery read:sleep read:workout'',
      state = ''whoop_sdk_state_12345'',
      tokens = JObj []\<rparr>"

definition demo_prompted :: auth_manager where
  "demo_prompted =
     \<lparr>settings = JObj [(''client_id'', JStr ''sid'')],
      client_id = JStr ''typed-id'', client_secret = JStr ''typed-secret'',
      redirect_uri = JStr ''https://www.google.com'',
      scopes = ''offline read:profile read:recovery read:sleep read:workout'',
      state = ''whoop_sdk_state_12345'',
      tokens = JObj []\<rparr>"

section \<open>Helper facts\<close>

lemma map_of_dict_update:
  "map_of (dict_update d new) k = (case map_of (rev new) k of None \<Rightarrow> map_of d k | Some v \<Rightarrow> Some v)"
  unfolding dict_update_def
proof (induction new arbitrary: d)
  case Nil
  show ?case by simp
next
  case (Cons p new)
  obtain a b where p: "p = (a, b)" by (cases p)
  show ?case
    by (simp add: p Cons.IH update_conv' map_add_def split: option.splits)
qed

lemma dict_update_frame:
  "k \<notin> fst ` set new \<Longrightarrow> map_of (dict_update d new) k = map_of d k"
proof -
  assume "k \<notin> fst ` set new"
  then have "map_of (rev new) k = None"
    by (simp add: map_of_eq_None_iff)
  then show ?thesis by (simp add: map_of_dict_update)
qed

lemma dict_update_keeps_keys:
  "map_of d k \<noteq> None \<Longrightarrow> map_of (dict_update d new) k \<noteq> None"
  by (simp add: map_of_dict_update split: option.splits)

lemma dict_update_overwrites:
  "distinct (map fst new) \<Longrightarrow> map_of new k = Some v \<Longrightarrow> map_of (dict_update d new) k = Some v"
  unfolding dict_update_def
proof (induction new arbitrary: d)
  case Nil
  then show ?case by simp
next
  case (Cons p new)
  obtain a b where p: "p = (a, b)" by (cases p)
  show ?case
  proof (cases "k = a")
    case True
    with Cons.prems p have "v = b" and "a \<notin> fst ` set new" by auto
    then have "map_of (foldl (\<lambda>acc (k, v). AList.update k v acc) (AList.update a b d) new) a
                 = map_of (AList.update a b d) a"
      using dict_update_frame [of a new "AList.update a b d"] by (simp add: dict_update_def)
    with True \<open>v = b\<close> p show ?thesis by (simp add: update_conv')
  next
    case False
    with Cons.prems p have "distinct (map fst new)" and "map_of new k = Some v" by auto
    then show ?thesis using Cons.IH [of "AList.update a b d"] p by simp
  qed
qed

text \<open>What \<^verbatim>\<open>refresh_access_token\<close> does once the stored refresh token has been read.\<close>

lemma refresh_access_token_cases:
  assumes "tokens m = JObj d" and "map_of d ''refresh_token'' = Some rt"
  shows "refresh_access_token L m w =
     (case network w (refresh_request m rt) of
        Inl e \<Rightarrow> (Inl e, m, w\<lparr>requests_log := requests_log w @ [refresh_request m rt]\<rparr>)
      | Inr resp \<Rightarrow>
          (case raise_for_status resp of
             Inl e \<Rightarrow> (Inl e, m, w\<lparr>requests_log := requests_log w @ [refresh_request m rt]\<rparr>)
           | Inr u \<Rightarrow>
               (case response_json L resp of
                  None \<Rightarrow> (Inl JSONDecodeError, m, w\<lparr>requests_log := requests_log w @ [refresh_request m rt]\<rparr>)
                | Some new \<Rightarrow>
                    (py_getitem (JObj (dict_update d new)) ''access_token'',
                     m\<lparr>tokens := JObj (dict_update d new)\<rparr>,
                     w\<lparr>requests_log := requests_log w @ [refresh_request m rt],
                       files := (files w)(CONFIG_PATH \<mapsto> json_dumps L (JObj (dict_update d new))),
                       fs_writes := fs_writes w @ [CONFIG_PATH]\<rparr>))))"
  using assms
  by (simp add: refresh_access_token_def requests_post_def refresh_request_def
      save_tokens_def Let_def split: sum.splits option.splits)

lemma ensure_access_token_refreshes:
  assumes "tokens m = JObj d" and "d \<noteq> []"
    and "map_of d ''access_token'' = None \<or> map_of d ''access_token'' = Some (JStr [])"
  shows "ensure_access_token L m w = refresh_access_token L m w"
  using assms by (auto simp add: ensure_access_token_def)

text \<open>What the construction does, by the outcome of the prompts and of the resolution.\<close>

lemma prompt_credentials_cases:
  "prompt_credentials L w =
     (case stdin w of
        x # y # z # ls \<Rightarrow>
          (Inr (JStr (py_strip x), JStr (py_strip y),
                JStr (if py_strip z \<noteq> [] then py_strip z else ''https://www.google.com'')),
           save_settings L (w\<lparr>stdin := ls\<rparr>)
             (JObj [(''client_id'', JStr (py_strip x)),
                    (''client_secret'', JStr (py_strip y)),
                    (''redirect_uri'',
                     JStr (if py_strip z \<noteq> [] then py_strip z else ''https://www.google.com''))]))
      | [x, y] \<Rightarrow> (Inl EOFError, w\<lparr>stdin := []\<rparr>)
      | [x] \<Rightarrow> (Inl EOFError, w\<lparr>stdin := []\<rparr>)
      | [] \<Rightarrow> (Inl EOFError, w))"
  by (simp add: prompt_credentials_def py_input_def Let_def split: list.splits)

lemma prompt_credentials_returns:
  assumes "prompt_credentials L w = (Inr (a, b, u), w1)"
  shows "length (stdin w1) < length (stdin w)
         \<and> fs_writes w1 = fs_writes w @ [SETTINGS_PATH]
         \<and> files w1 = (files w)(SETTINGS_PATH \<mapsto>
              json_dumps L (JObj [(''client_id'', a), (''client_secret'', b), (''redirect_uri'', u)]))"
  using assms
  by (auto simp add: prompt_credentials_cases save_settings_def split: list.splits)

lemma prompt_credentials_raises:
  assumes "prompt_credentials L w = (Inl e, w1)"
  shows "files w1 = files w \<and> fs_writes w1 = fs_writes w"
  using assms
  by (auto simp add: prompt_credentials_cases split: list.splits)

lemma prompt_credentials_typed:
  assumes "prompt_credentials L w = (Inr (a, b, u), w1)"
  shows "\<exists>x y z ls. stdin w = x # y # z # ls \<and> stdin w1 = ls
           \<and> a = JStr (py_strip x) \<and> b = JStr (py_strip y)
           \<and> u = JStr (if py_strip z \<noteq> [] then py_strip z else ''https://www.google.com'')"
proof -
  from assms obtain x y z ls where st: "stdin w = x # y # z # ls"
    by (auto simp add: prompt_credentials_cases split: list.splits)
  with assms have "stdin w1 = ls \<and> a = JStr (py_strip x) \<and> b = JStr (py_strip y)
      \<and> u = JStr (if py_strip z \<noteq> [] then py_strip z else ''https://www.google.com'')"
    by (auto simp add: prompt_credentials_cases save_settings_def)
  with st show ?thesis by blast
qed

lemma init_resolved:
  assumes "load_settings L w = Inr s"
    and "env_or_setting w s ''WHOOP_CLIENT_ID'' ''client_id'' = Inr c" and "truthy c"
    and "env_or_setting w s ''WHOOP_CLIENT_SECRET'' ''client_secret'' = Inr k" and "truthy k"
  shows "init L w =
     (case py_get s ''redirect_uri'' of
        Inl e \<Rightarrow> (Inl e, w)
      | Inr ru0 \<Rightarrow>
          (case load_tokens L w of
             Inl e \<Rightarrow> (Inl e, w)
           | Inr toks \<Rightarrow>
               (Inr \<lparr>settings = s, client_id = c, client_secret = k,
                     redirect_uri = (if truthy ru0 then ru0 else JStr ''https://www.google.com''),
                     scopes = ''offline read:profile read:recovery read:sleep read:workout'',
                     state = ''whoop_sdk_state_12345'',
                     tokens = toks\<rparr>, w)))"
  using assms by (simp add: init_def split: sum.splits)

lemma init_prompted:
  assumes "load_settings L w = Inr s"
    and "env_or_setting w s ''WHOOP_CLIENT_ID'' ''client_id'' = Inr c"
    and "env_or_setting w s ''WHOOP_CLIENT_SECRET'' ''client_secret'' = Inr k"
    and "\<not> truthy c \<or> \<not> truthy k"
  shows "init L w =
     (case py_get s ''redirect_uri'' of
        Inl e \<Rightarrow> (Inl e, w)
      | Inr ru0 \<Rightarrow>
          (case prompt_credentials L w of
             (Inl e, w1) \<Rightarrow> (Inl e, w1)
           | (Inr (a, b, u), w1) \<Rightarrow>
               (case load_tokens L w1 of
                  Inl e \<Rightarrow> (Inl e, w1)
                | Inr toks \<Rightarrow>
                    (Inr \<lparr>settings = s, client_id = a, client_secret = b, redirect_uri = u,
                          scopes = ''offline read:profile read:recovery read:sleep read:workout'',
                          state = ''whoop_sdk_state_12345'',
                          tokens = toks\<rparr>, w1))))"
  using assms by (auto simp add: init_def split: sum.splits prod.splits)

lemma init_raises_early:
  assumes "load_settings L w = Inl e
           \<or> (\<exists>s. load_settings L w = Inr s
                \<and> (env_or_setting w s ''WHOOP_CLIENT_ID'' ''client_id'' = Inl e
                    \<or> (\<exists>c. env_or_setting w s ''WHOOP_CLIENT_ID'' ''client_id'' = Inr c
                           \<and> env_or_setting w s ''WHOOP_CLIENT_SECRET'' ''client_secret'' = Inl e)))"
  shows "init L w = (Inl e, w)"
  using assms by (auto simp add: init_def)

lemma env_or_setting_env:
  "environ w var = Some e \<Longrightarrow> e \<noteq> [] \<Longrightarrow> env_or_setting w s var key = Inr (JStr e)"
  by (simp add: env_or_setting_def os_getenv_def)

lemma env_or_setting_setting:
  "environ w var = None \<or> environ w var = Some [] \<Longrightarrow> env_or_setting w s var key = py_get s key"
  by (auto simp add: env_or_setting_def os_getenv_def)

text \<open>A manager constructed while the token file does not exist has the empty token set.\<close>

lemma init_without_token_file:
  assumes "files w CONFIG_PATH = None" and "init L w = (Inr m, w')"
  shows "tokens m = JObj []"
proof (cases "load_settings L w")
  case (Inl e)
  then have "init L w = (Inl e, w)" by (simp add: init_raises_early)
  with assms show ?thesis by simp
next
  case s: (Inr s)
  show ?thesis
  proof (cases "env_or_setting w s ''WHOOP_CLIENT_ID'' ''client_id''")
    case (Inl e)
    with s have "init L w = (Inl e, w)" by (simp add: init_raises_early)
    with assms show ?thesis by simp
  next
    case c: (Inr c)
    show ?thesis
    proof (cases "env_or_setting w s ''WHOOP_CLIENT_SECRET'' ''client_secret''")
      case (Inl e)
      with s c have "init L w = (Inl e, w)" by (simp add: init_raises_early)
      with assms show ?thesis by simp
    next
      case k: (Inr k)
      have fresh: "load_tokens L w = Inr (JObj [])"
        using assms(1) by (simp add: load_tokens_def)
      show ?thesis
      proof (cases "truthy c \<and> truthy k")
        case True
        with s c k assms(2) fresh show ?thesis
          by (auto simp add: init_resolved split: sum.splits)
      next
        case False
        then have unresolved: "\<not> truthy c \<or> \<not> truthy k" by simp
        note run = init_prompted [OF s c k unresolved]
        from assms(2) run obtain a b u w1 toks where
          p: "prompt_credentials L w = (Inr (a, b, u), w1)"
          and l: "load_tokens L w1 = Inr toks" and t: "tokens m = toks"
          by (auto split: sum.splits prod.splits)
        from prompt_credentials_returns [OF p] assms(1) have "files w1 CONFIG_PATH = None"
          by simp
        with l t show ?thesis by (simp add: load_tokens_def)
      qed
    qed
  qed
qed

section \<open>ensure_access_token\<close>

text \<open>
  Claim C1. A manager whose token set holds a non-empty access token: \<^verbatim>\<open>ensure_access_token()\<close>
  returns exactly the stored value, and neither the manager nor the world changes, so
  no request is sent (the request log is a field of the world). A non-empty string is a
  true value: \<open>truthy (JStr s) = (s \<noteq> [])\<close>.
\<close>

theorem ensure_access_token_cached:
  assumes "tokens m = JObj d"
    and "map_of d ''access_token'' = Some a"
    and "truthy a"
  shows "ensure_access_token L m w = (Inr a, m, w)"
proof -
  from assms(2) have "d \<noteq> []" by auto
  with assms show ?thesis
    by (simp add: ensure_access_token_def)
qed

theorem ensure_access_token_cached_witness:
  "tokens (demo_manager demo_tokens) = demo_tokens
   \<and> truthy (JStr ''A1'')
   \<and> ensure_access_token demo_library (demo_manager demo_tokens) (demo_world offline)
       = (Inr (JStr ''A1''), demo_manager demo_tokens, demo_world offline)
   \<and> requests_log (snd (snd (ensure_access_token demo_library (demo_manager demo_tokens) (demo_world offline)))) = []"
  using ensure_access_token_cached
    [of "demo_manager demo_tokens" "[(''access_token'', JStr ''A1''), (''refresh_token'', JStr ''R1'')]"
        "JStr ''A1''" demo_library "demo_world offline"]
  by (simp add: demo_manager_def demo_tokens_def demo_world_def)

text \<open>
  Claim C2. A manager whose token set is the empty dict, which is what \<^verbatim>\<open>_load_tokens\<close>
  returns when the token file does not exist (\<open>init_without_token_file\<close> above):
  \<^verbatim>\<open>ensure_access_token()\<close> raises. The source
  raises the built-in RuntimeError with the message below; it is the error the
  specification calls NotAuthenticatedError. Nothing is changed and nothing is sent.
\<close>

theorem ensure_access_token_no_tokens:
  assumes "tokens m = JObj []"
  shows "ensure_access_token L m w
           = (Inl (RuntimeError ''No tokens found. Run Whoop(login=True) first.''), m, w)"
  using assms by (simp add: ensure_access_token_def)

theorem ensure_access_token_no_tokens_witness:
  "load_tokens demo_library (demo_world offline) = Inr (JObj [])
   \<and> ensure_access_token demo_library (demo_manager (JObj [])) (demo_world offline)
       = (Inl (RuntimeError ''No tokens found. Run Whoop(login=True) first.''),
          demo_manager (JObj []), demo_world offline)"
  using ensure_access_token_no_tokens [of "demo_manager (JObj [])" demo_library "demo_world offline"]
  by (simp add: demo_manager_def demo_world_def load_tokens_def)

section \<open>refresh_access_token and the refresh path\<close>

text \<open>
  Claim C5. The token endpoint answers the refresh request with an error status (400 to
  599, the statuses for which \<^verbatim>\<open>raise_for_status\<close> raises); there is a request, and so a
  response, only when the stored set has a refresh token. \<^verbatim>\<open>refresh_access_token()\<close> raises
  the HTTPError that carries the response, hence its status and body (the error the
  specification calls RefreshError). The manager, and so its in-memory token set, is
  unchanged; no file is written, so the token set on disk is unchanged; the only trace
  is the request in the log.
\<close>

theorem refresh_access_token_rejected:
  assumes "tokens m = JObj d"
    and "map_of d ''refresh_token'' = Some rt"
    and "network w (refresh_request m rt) = Inr resp"
    and "400 \<le> status_code resp" and "status_code resp < 600"
  shows "case refresh_access_token L m w of
           (r, m', w') \<Rightarrow>
             r = Inl (HTTPError resp) \<and> m' = m \<and> tokens m' = JObj d
             \<and> files w' = files w \<and> fs_writes w' = fs_writes w
             \<and> requests_log w' = requests_log w @ [refresh_request m rt]"
  using assms by (simp add: refresh_access_token_cases raise_for_status_def)

theorem refresh_access_token_rejected_witness:
  "network (demo_world (demo_network \<lparr>status_code = 401, body = ''denied''\<rparr>))
       (refresh_request (demo_manager demo_tokens) (JStr ''R1''))
     = Inr \<lparr>status_code = 401, body = ''denied''\<rparr>
   \<and> fst (refresh_access_token demo_library (demo_manager demo_tokens)
            (demo_world (demo_network \<lparr>status_code = 401, body = ''denied''\<rparr>)))
       = Inl (HTTPError \<lparr>status_code = 401, body = ''denied''\<rparr>)
   \<and> fst (snd (refresh_access_token demo_library (demo_manager demo_tokens)
            (demo_world (demo_network \<lparr>status_code = 401, body = ''denied''\<rparr>))))
       = demo_manager demo_tokens
   \<and> files (snd (snd (refresh_access_token demo_library (demo_manager demo_tokens)
            (demo_world (demo_network \<lparr>status_code = 401, body = ''denied''\<rparr>))))) = Map.empty"
  using refresh_access_token_rejected
    [of "demo_manager demo_tokens" "[(''access_token'', JStr ''A1''), (''refresh_token'', JStr ''R1'')]"
        "JStr ''R1''" "demo_world (demo_network \<lparr>status_code = 401, body = ''denied''\<rparr>)"
        "\<lparr>status_code = 401, body = ''denied''\<rparr>" demo_library]
  by (simp add: demo_manager_def demo_tokens_def demo_world_def demo_network_def
      refresh_request_def split: prod.splits)

text \<open>
  Claim C4. A refresh whose request is answered with a non-error status and a JSON object
  \<open>new\<close>: the manager's token set becomes the stored one updated with \<open>new\<close>, that merged
  set is what is written to the token file, every key that \<open>new\<close> does not have keeps the
  value it had, no key of the stored set disappears, and in particular a response
  without \<^verbatim>\<open>refresh_token\<close> leaves the stored refresh token in place.
\<close>

theorem refresh_access_token_merges:
  assumes "tokens m = JObj d"
    and "map_of d ''refresh_token'' = Some rt"
    and "network w (refresh_request m rt) = Inr resp"
    and "raise_for_status resp = Inr ()"
    and "response_json L resp = Some new"
  shows "case refresh_access_token L m w of
           (r, m', w') \<Rightarrow>
             tokens m' = JObj (dict_update d new)
             \<and> files w' CONFIG_PATH = Some (json_dumps L (JObj (dict_update d new)))
             \<and> (\<forall>k. k \<notin> fst ` set new \<longrightarrow> map_of (dict_update d new) k = map_of d k)
             \<and> (\<forall>k. map_of d k \<noteq> None \<longrightarrow> map_of (dict_update d new) k \<noteq> None)
             \<and> (''refresh_token'' \<notin> fst ` set new
                  \<longrightarrow> map_of (dict_update d new) ''refresh_token'' = Some rt)"
proof -
  have frame: "\<forall>k. k \<notin> fst ` set new \<longrightarrow> map_of (dict_update d new) k = map_of d k"
    by (simp add: dict_update_frame)
  have kept: "\<forall>k. map_of d k \<noteq> None \<longrightarrow> map_of (dict_update d new) k \<noteq> None"
    using dict_update_keeps_keys by blast
  have rt: "''refresh_token'' \<notin> fst ` set new
              \<longrightarrow> map_of (dict_update d new) ''refresh_token'' = Some rt"
    using assms(2) by (simp add: dict_update_frame)
  have run: "refresh_access_token L m w =
      (py_getitem (JObj (dict_update d new)) ''access_token'',
       m\<lparr>tokens := JObj (dict_update d new)\<rparr>,
       w\<lparr>requests_log := requests_log w @ [refresh_request m rt],
         files := (files w)(CONFIG_PATH \<mapsto> json_dumps L (JObj (dict_update d new))),
         fs_writes := fs_writes w @ [CONFIG_PATH]\<rparr>)"
    using assms by (simp add: refresh_access_token_cases)
  show ?thesis
    unfolding run using frame kept rt by simp
qed

theorem refresh_access_token_merges_witness:
  "response_json demo_library \<lparr>status_code = 200, body = ''new-access''\<rparr>
     = Some [(''access_token'', JStr ''A2'')]
   \<and> tokens (fst (snd (refresh_access_token demo_library (demo_manager demo_tokens)
        (demo_world (demo_network \<lparr>status_code = 200, body = ''new-access''\<rparr>)))))
       = JObj [(''access_token'', JStr ''A2''), (''refresh_token'', JStr ''R1'')]
   \<and> map_of (dict_update [(''access_token'', JStr ''A1''), (''refresh_token'', JStr ''R1'')]
                [(''access_token'', JStr ''A2'')]) ''refresh_token'' = Some (JStr ''R1'')"
  using refresh_access_token_merges
    [of "demo_manager demo_tokens" "[(''access_token'', JStr ''A1''), (''refresh_token'', JStr ''R1'')]"
        "JStr ''R1''" "demo_world (demo_network \<lparr>status_code = 200, body = ''new-access''\<rparr>)"
        "\<lparr>status_code = 200, body = ''new-access''\<rparr>" demo_library "[(''access_token'', JStr ''A2'')]"]
  by (simp add: demo_manager_def demo_tokens_def demo_world_def demo_network_def demo_library_def
      refresh_request_def raise_for_status_def dict_update_def split: prod.splits)

text \<open>
  Claim C3. A manager whose token set has a refresh token and no \<^verbatim>\<open>access_token\<close> key:
  \<^verbatim>\<open>ensure_access_token()\<close> sends exactly one request, the refresh request to the token
  endpoint. When that request is answered with a non-error status and a JSON object
  carrying an access token, the call returns that token; and whenever the call returns a
  value at all, the response carried an access token, the value returned is the access
  token of the merged set, and the merged set is both the manager's token set and the
  content of the token file when the call returns.
\<close>

theorem ensure_access_token_refresh_only:
  assumes "tokens m = JObj d"
    and "map_of d ''access_token'' = None"
    and "map_of d ''refresh_token'' = Some rt"
  shows "case ensure_access_token L m w of
           (r, m', w') \<Rightarrow>
             requests_log w' = requests_log w @ [refresh_request m rt]
             \<and> (\<forall>resp new a.
                   network w (refresh_request m rt) = Inr resp \<and> raise_for_status resp = Inr ()
                   \<and> response_json L resp = Some new \<and> distinct (map fst new)
                   \<and> map_of new ''access_token'' = Some a
                   \<longrightarrow> r = Inr a)
             \<and> (\<forall>a. r = Inr a \<longrightarrow>
                   (\<exists>resp new.
                      network w (refresh_request m rt) = Inr resp
                      \<and> response_json L resp = Some new
                      \<and> ''access_token'' \<in> fst ` set new
                      \<and> map_of (dict_update d new) ''access_token'' = Some a
                      \<and> tokens m' = JObj (dict_update d new)
                      \<and> files w' CONFIG_PATH = Some (json_dumps L (JObj (dict_update d new)))))"
proof -
  from assms(3) have ne: "d \<noteq> []" by auto
  have eq: "ensure_access_token L m w = refresh_access_token L m w"
    using assms(1,2) ne by (simp add: ensure_access_token_refreshes)
  have absent: "\<And>new. ''access_token'' \<notin> fst ` set new
                  \<Longrightarrow> map_of (dict_update d new) ''access_token'' = None"
    using assms(2) by (simp add: dict_update_frame)
  show ?thesis
  proof (cases "network w (refresh_request m rt)")
    case (Inl e)
    then show ?thesis
      unfolding eq using assms(1,3) by (simp add: refresh_access_token_cases)
  next
    case (Inr resp)
    show ?thesis
    proof (cases "raise_for_status resp")
      case (Inl e)
      with Inr show ?thesis
        unfolding eq using assms(1,3) by (simp add: refresh_access_token_cases)
    next
      case ok: (Inr u)
      show ?thesis
      proof (cases "response_json L resp")
        case None
        with Inr ok show ?thesis
          unfolding eq using assms(1,3) by (simp add: refresh_access_token_cases)
      next
        case (Some new)
        have run: "refresh_access_token L m w =
            (py_getitem (JObj (dict_update d new)) ''access_token'',
             m\<lparr>tokens := JObj (dict_update d new)\<rparr>,
             w\<lparr>requests_log := requests_log w @ [refresh_request m rt],
               files := (files w)(CONFIG_PATH \<mapsto> json_dumps L (JObj (dict_update d new))),
               fs_writes := fs_writes w @ [CONFIG_PATH]\<rparr>)"
          using assms(1,3) Inr ok Some by (simp add: refresh_access_token_cases)
        have issued: "\<And>a. distinct (map fst new) \<Longrightarrow> map_of new ''access_token'' = Some a
                        \<Longrightarrow> py_getitem (JObj (dict_update d new)) ''access_token'' = Inr a"
          by (simp add: dict_update_overwrites)
        have origin: "\<And>a. py_getitem (JObj (dict_update d new)) ''access_token'' = Inr a
                     \<Longrightarrow> ''access_token'' \<in> fst ` set new
                         \<and> map_of (dict_update d new) ''access_token'' = Some a"
          using absent [of new] by (auto split: option.splits)
        have c2: "\<forall>resp' new' a.
                   network w (refresh_request m rt) = Inr resp' \<and> raise_for_status resp' = Inr ()
                   \<and> response_json L resp' = Some new' \<and> distinct (map fst new')
                   \<and> map_of new' ''access_token'' = Some a
                   \<longrightarrow> py_getitem (JObj (dict_update d new)) ''access_token'' = Inr a"
          using Inr Some issued by auto
        have c3: "\<forall>a. py_getitem (JObj (dict_update d new)) ''access_token'' = Inr a \<longrightarrow>
                   (\<exists>resp' new'.
                      network w (refresh_request m rt) = Inr resp'
                      \<and> response_json L resp' = Some new'
                      \<and> ''access_token'' \<in> fst ` set new'
                      \<and> map_of (dict_update d new') ''access_token'' = Some a
                      \<and> JObj (dict_update d new) = JObj (dict_update d new')
                      \<and> json_dumps L (JObj (dict_update d new)) = json_dumps L (JObj (dict_update d new')))"
          using Inr Some origin by blast
        show ?thesis
          unfolding eq run using c2 c3 by simp
      qed
    qed
  qed
qed

theorem ensure_access_token_refresh_only_witness:
  "tokens (demo_manager demo_refresh_only) = JObj [(''refresh_token'', JStr ''R1'')]
   \<and> map_of [(''refresh_token'', JStr ''R1'')] ''access_token'' = None
   \<and> fst (ensure_access_token demo_library (demo_manager demo_refresh_only)
        (demo_world (demo_network \<lparr>status_code = 200, body = ''new-access''\<rparr>)))
       = Inr (JStr ''A2'')
   \<and> requests_log (snd (snd (ensure_access_token demo_library (demo_manager demo_refresh_only)
        (demo_world (demo_network \<lparr>status_code = 200, body = ''new-access''\<rparr>)))))
       = [refresh_request (demo_manager demo_refresh_only) (JStr ''R1'')]"
proof -
  let ?m = "demo_manager demo_refresh_only"
  let ?resp = "\<lparr>status_code = 200, body = ''new-access''\<rparr>"
  let ?w = "demo_world (demo_network ?resp)"
  have h1: "tokens ?m = JObj [(''refresh_token'', JStr ''R1'')]"
    by (simp add: demo_manager_def demo_refresh_only_def)
  have h2: "map_of [(''refresh_token'', JStr ''R1'')] ''access_token'' = None"
    by simp
  have h3: "map_of [(''refresh_token'', JStr ''R1'')] ''refresh_token'' = Some (JStr ''R1'')"
    by simp
  obtain r m' w' where run: "ensure_access_token demo_library ?m ?w = (r, m', w')"
    by (cases "ensure_access_token demo_library ?m ?w")
  from ensure_access_token_refresh_only [OF h1 h2 h3, where L = demo_library and w = ?w] run
  have log: "requests_log w' = requests_log ?w @ [refresh_request ?m (JStr ''R1'')]"
    and issue: "\<And>resp new a.
        network ?w (refresh_request ?m (JStr ''R1'')) = Inr resp \<Longrightarrow> raise_for_status resp = Inr ()
        \<Longrightarrow> response_json demo_library resp = Some new \<Longrightarrow> distinct (map fst new)
        \<Longrightarrow> map_of new ''access_token'' = Some a \<Longrightarrow> r = Inr a"
    by simp_all
  have "r = Inr (JStr ''A2'')"
  proof (rule issue)
    show "network ?w (refresh_request ?m (JStr ''R1'')) = Inr ?resp"
      by (simp add: demo_world_def demo_network_def refresh_request_def)
    show "raise_for_status ?resp = Inr ()"
      by (simp add: raise_for_status_def)
    show "response_json demo_library ?resp = Some [(''access_token'', JStr ''A2'')]"
      by (simp add: demo_library_def)
    show "distinct (map fst [(''access_token'', JStr ''A2'')])"
      by simp
    show "map_of [(''access_token'', JStr ''A2'')] ''access_token'' = Some (JStr ''A2'')"
      by simp
  qed
  with run log h1 h2 show ?thesis
    by (simp add: demo_world_def)
qed




section \<open>The authorization URL\<close>

text \<open>
  Claim C7. For a manager with client id \<^verbatim>\<open>abc\<close>, redirect URI \<^verbatim>\<open>https://example.com\<close>,
  scope \<^verbatim>\<open>a b\<close> and state \<^verbatim>\<open>s1\<close>, \<^verbatim>\<open>_build_auth_url\<close> yields the URL below, whose query
  string decodes to exactly those four parameters and \<^verbatim>\<open>response_type=code\<close>. The URL is
  a function of the manager alone: it takes no world and returns none, so nothing is
  sent and the same manager always gives the same URL. (\<^verbatim>\<open>__init__\<close> sets scope and state
  to fixed strings; the manager of the claim is one whose attributes hold these values.)
\<close>

theorem build_auth_url_example:
  "build_auth_url L
     \<lparr>settings = s, client_id = JStr ''abc'', client_secret = k,
      redirect_uri = JStr ''https://example.com'', scopes = ''a b'', state = ''s1'',
      tokens = t\<rparr>
     = ''https://api.prod.whoop.com/oauth/oauth2/auth?client_id=abc&response_type=code&redirect_uri=https%3A%2F%2Fexample.com&scope=a+b&state=s1''
   \<and> parse_qsl (url_query (build_auth_url L
        \<lparr>settings = s, client_id = JStr ''abc'', client_secret = k,
         redirect_uri = JStr ''https://example.com'', scopes = ''a b'', state = ''s1'',
         tokens = t\<rparr>))
     = [(''client_id'', ''abc''), (''response_type'', ''code''),
        (''redirect_uri'', ''https://example.com''), (''scope'', ''a b''), (''state'', ''s1'')]"
proof -
  have enc: "build_auth_url L
     \<lparr>settings = s, client_id = JStr ''abc'', client_secret = k,
      redirect_uri = JStr ''https://example.com'', scopes = ''a b'', state = ''s1'',
      tokens = t\<rparr>
     = ''https://api.prod.whoop.com/oauth/oauth2/auth?client_id=abc&response_type=code&redirect_uri=https%3A%2F%2Fexample.com&scope=a+b&state=s1''"
  proof -
    have q: "quote_plus ''client_id'' = ''client_id''" "quote_plus ''abc'' = ''abc''"
      "quote_plus ''response_type'' = ''response_type''" "quote_plus ''code'' = ''code''"
      "quote_plus ''redirect_uri'' = ''redirect_uri''"
      "quote_plus ''https://example.com'' = ''https%3A%2F%2Fexample.com''"
      "quote_plus ''scope'' = ''scope''" "quote_plus ''a b'' = ''a+b''"
      "quote_plus ''state'' = ''state''" "quote_plus ''s1'' = ''s1''"
      by code_simp+
    show ?thesis
      by (simp add: build_auth_url_def urlencode_def AUTH_URL_def q)
  qed
  have dec: "parse_qsl (url_query
      ''https://api.prod.whoop.com/oauth/oauth2/auth?client_id=abc&response_type=code&redirect_uri=https%3A%2F%2Fexample.com&scope=a+b&state=s1'')
     = [(''client_id'', ''abc''), (''response_type'', ''code''),
        (''redirect_uri'', ''https://example.com''), (''scope'', ''a b''), (''state'', ''s1'')]"
    by code_simp
  show ?thesis
    unfolding enc using dec by simp
qed

section \<open>The stores\<close>

text \<open>
  Claim C9. A value is JSON-representable when \<^verbatim>\<open>json.load\<close> reads back from the text
  that \<^verbatim>\<open>json.dump\<close> writes for it the same value. For every such value, a token set or a
  credential mapping, loading after saving yields that value again: each store writes
  and reads the same file, a write replaces the file, and the load returns all of it.
  \<^verbatim>\<open>_save_tokens\<close> also makes the value the manager's token set.
\<close>

theorem store_round_trip:
  assumes "json_loads L (json_dumps L v) = Some v"
  shows "load_tokens L (snd (save_tokens L m w v)) = Inr v
         \<and> tokens (fst (save_tokens L m w v)) = v
         \<and> load_settings L (save_settings L w v) = Inr v"
  using assms by (simp add: load_tokens_def save_tokens_def load_settings_def save_settings_def)

theorem store_round_trip_witness:
  "json_loads demo_library (json_dumps demo_library demo_tokens) = Some demo_tokens
   \<and> load_tokens demo_library
        (snd (save_tokens demo_library (demo_manager (JObj [])) (demo_world offline) demo_tokens))
       = Inr demo_tokens
   \<and> json_loads demo_library (json_dumps demo_library demo_credentials) = Some demo_credentials
   \<and> load_settings demo_library (save_settings demo_library (demo_world offline) demo_credentials)
       = Inr demo_credentials"
proof -
  have t: "json_loads demo_library (json_dumps demo_library demo_tokens) = Some demo_tokens"
    by (simp add: demo_library_def)
  have c: "json_loads demo_library (json_dumps demo_library demo_credentials) = Some demo_credentials"
    by (simp add: demo_library_def demo_credentials_def demo_tokens_def)
  from store_round_trip [OF t, where m = "demo_manager (JObj [])" and w = "demo_world offline"]
    store_round_trip [OF c, where m = "demo_manager (JObj [])" and w = "demo_world offline"] t c
  show ?thesis by (intro conjI) simp_all
qed

section \<open>Construction\<close>

text \<open>
  Claim C6, as amended. Let \<open>c\<close> and \<open>k\<close> be what \<^verbatim>\<open>os.getenv(..) or self.settings.get(..)\<close>
  gives for the client id and the client secret. When both are true (non-empty) values,
  nothing is asked of the user, the manager holds exactly these two values and the world
  is unchanged: a field whose environment variable is set and non-empty takes the
  environment value, and the settings value is taken only when the variable is unset or
  empty. When one of them is not, all three fields are asked for, whatever the
  environment holds: the manager's client id and client secret are the first two typed
  lines with the whitespace at their ends removed, and its redirect URI is the third
  line so stripped, or \<^verbatim>\<open>https://www.google.com\<close> when that leaves nothing.
\<close>

theorem init_environment_precedence:
  assumes "init L w = (Inr m, w')"
    and "load_settings L w = Inr s"
    and "env_or_setting w s ''WHOOP_CLIENT_ID'' ''client_id'' = Inr c"
    and "env_or_setting w s ''WHOOP_CLIENT_SECRET'' ''client_secret'' = Inr k"
  shows "(truthy c \<and> truthy k \<longrightarrow>
            client_id m = c \<and> client_secret m = k \<and> w' = w
            \<and> (\<forall>e. environ w ''WHOOP_CLIENT_ID'' = Some e \<and> e \<noteq> [] \<longrightarrow> client_id m = JStr e)
            \<and> (\<forall>e. environ w ''WHOOP_CLIENT_SECRET'' = Some e \<and> e \<noteq> []
                   \<longrightarrow> client_secret m = JStr e)
            \<and> (environ w ''WHOOP_CLIENT_ID'' = None \<or> environ w ''WHOOP_CLIENT_ID'' = Some []
                   \<longrightarrow> py_get s ''client_id'' = Inr (client_id m))
            \<and> (environ w ''WHOOP_CLIENT_SECRET'' = None \<or> environ w ''WHOOP_CLIENT_SECRET'' = Some []
                   \<longrightarrow> py_get s ''client_secret'' = Inr (client_secret m)))
         \<and> (\<not> truthy c \<or> \<not> truthy k \<longrightarrow>
               (\<exists>x y z ls.
                  stdin w = x # y # z # ls \<and> stdin w' = ls
                  \<and> client_id m = JStr (py_strip x)
                  \<and> client_secret m = JStr (py_strip y)
                  \<and> redirect_uri m
                      = JStr (if py_strip z \<noteq> [] then py_strip z else ''https://www.google.com'')))"
proof (rule conjI; rule impI)
  assume res: "truthy c \<and> truthy k"
  with assms have fields: "client_id m = c \<and> client_secret m = k \<and> w' = w"
    by (auto simp add: init_resolved split: sum.splits)
  have id_env: "\<forall>e. environ w ''WHOOP_CLIENT_ID'' = Some e \<and> e \<noteq> [] \<longrightarrow> c = JStr e"
    using assms(3) by (auto simp add: env_or_setting_env)
  have sec_env: "\<forall>e. environ w ''WHOOP_CLIENT_SECRET'' = Some e \<and> e \<noteq> [] \<longrightarrow> k = JStr e"
    using assms(4) by (auto simp add: env_or_setting_env)
  have id_set: "environ w ''WHOOP_CLIENT_ID'' = None \<or> environ w ''WHOOP_CLIENT_ID'' = Some []
                  \<longrightarrow> py_get s ''client_id'' = Inr c"
    using assms(3) env_or_setting_setting [of w "''WHOOP_CLIENT_ID''" s "''client_id''"] by auto
  have sec_set: "environ w ''WHOOP_CLIENT_SECRET'' = None \<or> environ w ''WHOOP_CLIENT_SECRET'' = Some []
                  \<longrightarrow> py_get s ''client_secret'' = Inr k"
    using assms(4) env_or_setting_setting [of w "''WHOOP_CLIENT_SECRET''" s "''client_secret''"]
    by auto
  from fields id_env sec_env id_set sec_set
  show "client_id m = c \<and> client_secret m = k \<and> w' = w
            \<and> (\<forall>e. environ w ''WHOOP_CLIENT_ID'' = Some e \<and> e \<noteq> [] \<longrightarrow> client_id m = JStr e)
            \<and> (\<forall>e. environ w ''WHOOP_CLIENT_SECRET'' = Some e \<and> e \<noteq> []
                   \<longrightarrow> client_secret m = JStr e)
            \<and> (environ w ''WHOOP_CLIENT_ID'' = None \<or> environ w ''WHOOP_CLIENT_ID'' = Some []
                   \<longrightarrow> py_get s ''client_id'' = Inr (client_id m))
            \<and> (environ w ''WHOOP_CLIENT_SECRET'' = None \<or> environ w ''WHOOP_CLIENT_SECRET'' = Some []
                   \<longrightarrow> py_get s ''client_secret'' = Inr (client_secret m))"
    by simp
next
  assume unresolved: "\<not> truthy c \<or> \<not> truthy k"
  note run = init_prompted [OF assms(2,3,4) unresolved]
  from assms(1) run obtain a b u where
    p: "prompt_credentials L w = (Inr (a, b, u), w')"
    and m: "client_id m = a" "client_secret m = b" "redirect_uri m = u"
    by (auto split: sum.splits prod.splits)
  from prompt_credentials_typed [OF p] m
  show "\<exists>x y z ls.
          stdin w = x # y # z # ls \<and> stdin w' = ls
          \<and> client_id m = JStr (py_strip x)
          \<and> client_secret m = JStr (py_strip y)
          \<and> redirect_uri m
              = JStr (if py_strip z \<noteq> [] then py_strip z else ''https://www.google.com'')"
    by simp
qed

theorem init_environment_precedence_witness:
  "environ (demo_setup [''WHOOP_CLIENT_ID'' \<mapsto> ''eid''] [SETTINGS_PATH \<mapsto> ''credentials-1''] [])
       ''WHOOP_CLIENT_ID'' = Some ''eid''
   \<and> environ (demo_setup [''WHOOP_CLIENT_ID'' \<mapsto> ''eid''] [SETTINGS_PATH \<mapsto> ''credentials-1''] [])
       ''WHOOP_CLIENT_SECRET'' = None
   \<and> py_get demo_credentials ''client_id'' = Inr (JStr ''id1'')
   \<and> fst (init demo_library
        (demo_setup [''WHOOP_CLIENT_ID'' \<mapsto> ''eid''] [SETTINGS_PATH \<mapsto> ''credentials-1''] []))
       = Inr demo_resolved
   \<and> client_id demo_resolved = JStr ''eid''
   \<and> py_get demo_credentials ''client_secret'' = Inr (client_secret demo_resolved)
   \<and> fst (init demo_library
        (demo_setup [''WHOOP_CLIENT_ID'' \<mapsto> ''eid''] [SETTINGS_PATH \<mapsto> ''id-only'']
           ['' typed-id '', ''typed-secret'', []]))
       = Inr demo_prompted
   \<and> client_id demo_prompted = JStr (py_strip '' typed-id '')
   \<and> client_secret demo_prompted = JStr (py_strip ''typed-secret'')
   \<and> redirect_uri demo_prompted = JStr ''https://www.google.com''"
proof -
  let ?w = "demo_setup [''WHOOP_CLIENT_ID'' \<mapsto> ''eid''] [SETTINGS_PATH \<mapsto> ''credentials-1''] []"
  have res: "fst (init demo_library ?w) = Inr demo_resolved"
    by code_simp
  then have run: "init demo_library ?w = (Inr demo_resolved, snd (init demo_library ?w))"
    by (metis prod.collapse)
  have s: "load_settings demo_library ?w = Inr demo_credentials"
    by code_simp
  have c: "env_or_setting ?w demo_credentials ''WHOOP_CLIENT_ID'' ''client_id'' = Inr (JStr ''eid'')"
    by code_simp
  have k: "env_or_setting ?w demo_credentials ''WHOOP_CLIENT_SECRET'' ''client_secret''
             = Inr (JStr ''sec1'')"
    by code_simp
  have e1: "environ ?w ''WHOOP_CLIENT_ID'' = Some ''eid''"
    by (simp add: demo_setup_def)
  have e2: "environ ?w ''WHOOP_CLIENT_SECRET'' = None"
    by (simp add: demo_setup_def)
  have g: "py_get demo_credentials ''client_id'' = Inr (JStr ''id1'')"
    by (simp add: demo_credentials_def)
  from init_environment_precedence [OF run s c k] e1 e2
  have r1: "client_id demo_resolved = JStr ''eid''"
    and r2: "py_get demo_credentials ''client_secret'' = Inr (client_secret demo_resolved)"
    by simp_all
  let ?v = "demo_setup [''WHOOP_CLIENT_ID'' \<mapsto> ''eid''] [SETTINGS_PATH \<mapsto> ''id-only'']
              ['' typed-id '', ''typed-secret'', []]"
  have res': "fst (init demo_library ?v) = Inr demo_prompted"
    by code_simp
  then have run': "init demo_library ?v = (Inr demo_prompted, snd (init demo_library ?v))"
    by (metis prod.collapse)
  have s': "load_settings demo_library ?v = Inr (JObj [(''client_id'', JStr ''sid'')])"
    by code_simp
  have c': "env_or_setting ?v (JObj [(''client_id'', JStr ''sid'')]) ''WHOOP_CLIENT_ID'' ''client_id''
              = Inr (JStr ''eid'')"
    by code_simp
  have k': "env_or_setting ?v (JObj [(''client_id'', JStr ''sid'')]) ''WHOOP_CLIENT_SECRET''
              ''client_secret'' = Inr JNull"
    by code_simp
  have lines: "stdin ?v = ['' typed-id '', ''typed-secret'', []]"
    by (simp add: demo_setup_def)
  have blank: "py_strip [] = []"
    by code_simp
  from init_environment_precedence [OF run' s' c' k'] lines blank
  have p1: "client_id demo_prompted = JStr (py_strip '' typed-id '')"
    and p2: "client_secret demo_prompted = JStr (py_strip ''typed-secret'')"
    and p3: "redirect_uri demo_prompted = JStr ''https://www.google.com''"
    by simp_all
  from e1 e2 g res r1 r2 res' p1 p2 p3 show ?thesis by (intro conjI)
qed

text \<open>
  The claim as first stated fails in two ways. A variable that is present but empty does
  not win: with \<^verbatim>\<open>WHOOP_CLIENT_ID\<close> set to the empty string the client id is the one of the
  settings file. And when one of the two fields cannot be resolved, both are asked for:
  with \<^verbatim>\<open>WHOOP_CLIENT_ID=eid\<close>, a client id in the settings file and no secret anywhere,
  the client id is the line the user types, not the environment value.
\<close>

theorem init_environment_precedence_counterexample:
  "environ (demo_setup [''WHOOP_CLIENT_ID'' \<mapsto> [], ''WHOOP_CLIENT_SECRET'' \<mapsto> ''esec'']
              [SETTINGS_PATH \<mapsto> ''credentials-1''] []) ''WHOOP_CLIENT_ID'' = Some []
   \<and> load_settings demo_library
        (demo_setup [''WHOOP_CLIENT_ID'' \<mapsto> [], ''WHOOP_CLIENT_SECRET'' \<mapsto> ''esec'']
           [SETTINGS_PATH \<mapsto> ''credentials-1''] []) = Inr demo_credentials
   \<and> map_sum id client_id (fst (init demo_library
        (demo_setup [''WHOOP_CLIENT_ID'' \<mapsto> [], ''WHOOP_CLIENT_SECRET'' \<mapsto> ''esec'']
           [SETTINGS_PATH \<mapsto> ''credentials-1''] []))) = Inr (JStr ''id1'')
   \<and> environ (demo_setup [''WHOOP_CLIENT_ID'' \<mapsto> ''eid''] [SETTINGS_PATH \<mapsto> ''id-only'']
              ['' typed-id '', ''typed-secret'', []]) ''WHOOP_CLIENT_ID'' = Some ''eid''
   \<and> load_settings demo_library
        (demo_setup [''WHOOP_CLIENT_ID'' \<mapsto> ''eid''] [SETTINGS_PATH \<mapsto> ''id-only'']
           ['' typed-id '', ''typed-secret'', []]) = Inr (JObj [(''client_id'', JStr ''sid'')])
   \<and> map_sum id client_id (fst (init demo_library
        (demo_setup [''WHOOP_CLIENT_ID'' \<mapsto> ''eid''] [SETTINGS_PATH \<mapsto> ''id-only'']
           ['' typed-id '', ''typed-secret'', []]))) = Inr (JStr ''typed-id'')"
  by (intro conjI; code_simp)

text \<open>
  Claim C8. During construction a file is written only when the client id or the client
  secret did not resolve to a true (non-empty) value from the environment or the
  settings file. And whenever the construction returns a manager after reading from the
  console, what it wrote is the settings file, and that file holds the triple of client
  id, client secret and redirect URI that the manager holds.
\<close>

theorem init_settings_written:
  assumes "init L w = (r, w')"
  shows "(fs_writes w' \<noteq> fs_writes w \<or> files w' \<noteq> files w \<longrightarrow>
            (\<exists>s c k. load_settings L w = Inr s
               \<and> env_or_setting w s ''WHOOP_CLIENT_ID'' ''client_id'' = Inr c
               \<and> env_or_setting w s ''WHOOP_CLIENT_SECRET'' ''client_secret'' = Inr k
               \<and> (\<not> truthy c \<or> \<not> truthy k)))
         \<and> (\<forall>m. r = Inr m \<and> stdin w' \<noteq> stdin w \<longrightarrow>
               fs_writes w' = fs_writes w @ [SETTINGS_PATH]
               \<and> files w' SETTINGS_PATH =
                   Some (json_dumps L (JObj [(''client_id'', client_id m),
                                             (''client_secret'', client_secret m),
                                             (''redirect_uri'', redirect_uri m)])))"
proof (cases "load_settings L w")
  case (Inl e)
  then have "init L w = (Inl e, w)" by (simp add: init_raises_early)
  with assms show ?thesis by simp
next
  case s: (Inr s)
  show ?thesis
  proof (cases "env_or_setting w s ''WHOOP_CLIENT_ID'' ''client_id''")
    case (Inl e)
    with s have "init L w = (Inl e, w)" by (simp add: init_raises_early)
    with assms show ?thesis by simp
  next
    case c: (Inr c)
    show ?thesis
    proof (cases "env_or_setting w s ''WHOOP_CLIENT_SECRET'' ''client_secret''")
      case (Inl e)
      with s c have "init L w = (Inl e, w)" by (simp add: init_raises_early)
      with assms show ?thesis by simp
    next
      case k: (Inr k)
      show ?thesis
      proof (cases "truthy c \<and> truthy k")
        case True
        with s c k assms have "w' = w"
          by (auto simp add: init_resolved split: sum.splits)
        then show ?thesis by simp
      next
        case False
        then have unresolved: "\<not> truthy c \<or> \<not> truthy k" by simp
        then have first: "\<exists>s c k. load_settings L w = Inr s
               \<and> env_or_setting w s ''WHOOP_CLIENT_ID'' ''client_id'' = Inr c
               \<and> env_or_setting w s ''WHOOP_CLIENT_SECRET'' ''client_secret'' = Inr k
               \<and> (\<not> truthy c \<or> \<not> truthy k)"
          using s c k by blast
        note run = init_prompted [OF s c k unresolved]
        have second: "\<And>m. r = Inr m \<Longrightarrow>
               fs_writes w' = fs_writes w @ [SETTINGS_PATH]
               \<and> files w' SETTINGS_PATH =
                   Some (json_dumps L (JObj [(''client_id'', client_id m),
                                             (''client_secret'', client_secret m),
                                             (''redirect_uri'', redirect_uri m)]))"
        proof -
          fix m assume ok: "r = Inr m"
          from assms ok run obtain a b u where
            p: "prompt_credentials L w = (Inr (a, b, u), w')"
            and m: "client_id m = a" "client_secret m = b" "redirect_uri m = u"
            by (auto split: sum.splits prod.splits)
          from prompt_credentials_returns [OF p] m
          show "fs_writes w' = fs_writes w @ [SETTINGS_PATH]
               \<and> files w' SETTINGS_PATH =
                   Some (json_dumps L (JObj [(''client_id'', client_id m),
                                             (''client_secret'', client_secret m),
                                             (''redirect_uri'', redirect_uri m)]))"
            by simp
        qed
        from first second show ?thesis by blast
      qed
    qed
  qed
qed

theorem init_settings_written_witness:
  "stdin (snd (init demo_library (demo_setup Map.empty Map.empty
        ['' id1'', ''sec1 '', ''https://example.com''])))
     \<noteq> ['' id1'', ''sec1 '', ''https://example.com'']
   \<and> fs_writes (snd (init demo_library (demo_setup Map.empty Map.empty
        ['' id1'', ''sec1 '', ''https://example.com''])))
       = [SETTINGS_PATH]
   \<and> files (snd (init demo_library (demo_setup Map.empty Map.empty
        ['' id1'', ''sec1 '', ''https://example.com'']))) SETTINGS_PATH
       = Some (json_dumps demo_library demo_credentials)
   \<and> map_sum id client_id (fst (init demo_library (demo_setup Map.empty Map.empty
        ['' id1'', ''sec1 '', ''https://example.com''])))
       = Inr (JStr ''id1'')"
proof -
  let ?w = "demo_setup Map.empty Map.empty ['' id1'', ''sec1 '', ''https://example.com'']"
  let ?m = "\<lparr>settings = JObj [], client_id = JStr ''id1'', client_secret = JStr ''sec1'',
             redirect_uri = JStr ''https://example.com'',
             scopes = ''offline read:profile read:recovery read:sleep read:workout'',
             state = ''whoop_sdk_state_12345'',
             tokens = JObj []\<rparr>"
  have res: "fst (init demo_library ?w) = Inr ?m"
    by code_simp
  then have run: "init demo_library ?w = (Inr ?m, snd (init demo_library ?w))"
    by (metis prod.collapse)
  have typed: "stdin (snd (init demo_library ?w)) = []"
    by code_simp
  have before: "stdin ?w = ['' id1'', ''sec1 '', ''https://example.com'']"
    and nolog: "fs_writes ?w = []"
    by (simp_all add: demo_setup_def)
  from init_settings_written [OF run] typed before nolog
  have "fs_writes (snd (init demo_library ?w)) = [SETTINGS_PATH]"
    and "files (snd (init demo_library ?w)) SETTINGS_PATH
           = Some (json_dumps demo_library demo_credentials)"
    by (simp_all add: demo_credentials_def)
  moreover have "stdin (snd (init demo_library ?w)) \<noteq> ['' id1'', ''sec1 '', ''https://example.com'']"
    using typed by simp
  moreover have "map_sum id client_id (fst (init demo_library ?w)) = Inr (JStr ''id1'')"
    using res by simp
  ultimately show ?thesis by (intro conjI)
qed

end
